theory Spec2Isabelle
  imports Complex_Main
begin

section \<open>Data model\<close>

text \<open>
  An image and a subband are two-dimensional arrays of samples, held as the list of
  their rows. The samples are reals: the development is about the arithmetic the code
  writes down, not about the rounding of IEEE doubles.
\<close>

type_synonym matrix = "real list list"

text \<open>
  \<open>pywt.wavedec2\<close> returns the Python list
  \<open>[cA_n, (cH_n, cV_n, cD_n), ..., (cH_1, cV_1, cD_1)]\<close>: entry 0 is the approximation
  subband, entry \<open>i \<ge> 1\<close> is the tuple of detail subbands of one level, coarsest level
  first. The record keeps entry 0 in \<open>approx\<close> and entries \<open>1, 2, ...\<close> in \<open>details\<close>,
  so \<open>coeffs[i]\<close> for \<open>i \<ge> 1\<close> is \<open>details c ! (i - 1)\<close>.
\<close>

record coeffs =
  approx :: matrix
  details :: "matrix list list"

datatype error = ValueError

text \<open>
  The two shrinkage rules that the specification defines. In the source the mode is a
  string, \<open>'soft'\<close> or \<open>'hard'\<close> for these two, handed to the library unchecked; the
  functions of the source below take the string.
\<close>

datatype mode = Soft | Hard

fun mode_name :: "mode \<Rightarrow> string" where
  "mode_name Soft = ''soft''"
| "mode_name Hard = ''hard''"

text \<open>
  The wavelet library is not part of the repository. The two transforms the code calls
  are parameters of the model, and so is what the library's \<open>threshold\<close> does for a
  mode string other than \<open>'soft'\<close> and \<open>'hard'\<close>: it has further modes of its own and
  raises for a string it does not know. An exception raised inside the library is the
  \<open>Inl\<close> result, and \<open>wavelet_denoise\<close>, which has no handler, passes it on.
\<close>

record pywt =
  wavedec2 :: "matrix \<Rightarrow> string \<Rightarrow> int \<Rightarrow> error + coeffs"
  waverec2 :: "coeffs \<Rightarrow> string \<Rightarrow> error + matrix"
  other_mode_threshold :: "matrix \<Rightarrow> real \<Rightarrow> string \<Rightarrow> error + matrix"

section \<open>Array helpers of numpy\<close>

text \<open>
  \<open>a.shape\<close> of a two-dimensional array. A list of rows cannot record the width of an
  array without rows; that width is taken as 0.
\<close>

definition shape :: "matrix \<Rightarrow> nat \<times> nat" where
  "shape a = (length a, if a = [] then 0 else length (hd a))"

text \<open>
  \<open>a.size\<close>: the number of elements, the product of the shape. The code takes its
  logarithm; for an array without elements numpy gives \<open>-inf\<close> there, which a real
  cannot hold.
\<close>

definition size_of :: "matrix \<Rightarrow> nat" where
  "size_of a = fst (shape a) * snd (shape a)"

text \<open>
  \<open>np.median\<close> of the flattened array: the middle value of the sorted copy when the
  length is odd, the mean of the two middle values when it is even. numpy returns NaN
  for an empty array; a real cannot hold it, and the model returns 0 there.
\<close>

definition median :: "real list \<Rightarrow> real" where
  "median xs =
     (let s = sort xs; n = length s
      in if n = 0 then 0
         else if odd n then s ! (n div 2)
         else (s ! (n div 2 - 1) + s ! (n div 2)) / 2)"

text \<open>\<open>a[:h, :w]\<close>, the slice that keeps the first \<open>h\<close> rows and first \<open>w\<close> columns.\<close>

definition crop :: "matrix \<Rightarrow> nat \<Rightarrow> nat \<Rightarrow> matrix" where
  "crop a h w = map (take w) (take h a)"

section \<open>Coefficient shrinkage\<close>

text \<open>
  Modelled from the spec: \<open>pywt.threshold\<close>, the shrinkage function of the wavelet
  library, is not in the repository. Section 4.4 of the specification gives it
  elementwise: soft is \<open>sign(x) * max(|x| - threshold, 0)\<close>, hard is \<open>x\<close> if
  \<open>|x| > threshold\<close> else \<open>0\<close>.
\<close>

fun shrink :: "real \<Rightarrow> mode \<Rightarrow> real \<Rightarrow> real" where
  "shrink threshold Soft x = sgn x * max (\<bar>x\<bar> - threshold) 0"
| "shrink threshold Hard x = (if \<bar>x\<bar> > threshold then x else 0)"

definition pywt_threshold :: "matrix \<Rightarrow> real \<Rightarrow> mode \<Rightarrow> matrix" where
  "pywt_threshold data v md = map (map (shrink v md)) data"

text \<open>
  The call \<open>pywt.threshold(detail, threshold, mode=mode)\<close> of lines 72, 82 and 90, with
  the mode as the string the source passes on. For \<open>'soft'\<close> and \<open>'hard'\<close> it is the
  shrinkage above; for every other string it is what the library does.
\<close>

definition threshold_call :: "pywt \<Rightarrow> matrix \<Rightarrow> real \<Rightarrow> string \<Rightarrow> error + matrix" where
  "threshold_call P data v mode =
     (if mode = ''soft'' then Inr (pywt_threshold data v Soft)
      else if mode = ''hard'' then Inr (pywt_threshold data v Hard)
      else other_mode_threshold P data v mode)"

text \<open>
  A sequence of calls made one after the other, as a loop or a comprehension makes
  them: the first exception ends it, otherwise the results are collected in order.
\<close>

fun collect :: "(error + 'a) list \<Rightarrow> error + 'a list" where
  "collect [] = Inr []"
| "collect (r # rs) =
     (case r of
        Inl e \<Rightarrow> Inl e
      | Inr x \<Rightarrow> (case collect rs of Inl e \<Rightarrow> Inl e | Inr xs \<Rightarrow> Inr (x # xs)))"

section \<open>The denoising function\<close>

text \<open>
  Line 63: \<open>local_sigma = np.median(np.abs(detail)) / 0.6745\<close>, the noise level of one
  subband from its own coefficients.
\<close>

definition local_sigma :: "matrix \<Rightarrow> real" where
  "local_sigma detail = median (map abs (concat detail)) / 0.6745"

text \<open>
  Lines 57 to 69: the threshold of the subband at position \<open>j\<close> of the tuple of level
  \<open>i\<close> in the adaptive branch. Position 2 is the diagonal subband. The loop starts at
  \<open>i = 1\<close>, so the exponent \<open>i - 1\<close> is never negative.
\<close>

definition adaptive_threshold :: "real \<Rightarrow> nat \<Rightarrow> nat \<Rightarrow> matrix \<Rightarrow> real" where
  "adaptive_threshold threshold_factor i j detail =
     (let level_factor = threshold_factor * (0.5 ^ (i - 1))
      in if j = 2 then local_sigma detail * level_factor * 2.0
         else local_sigma detail * level_factor * 1.5)"

text \<open>
  Lines 53 to 93: the body of the loop over \<open>i\<close>, which maps the tuple \<open>coeffs[i]\<close> to
  the tuple stored in \<open>coeffs_thresh[i]\<close>. The three branches are the ones of the
  source: \<open>'adaptive'\<close>, \<open>'bayes'\<close>, and every other method value.
\<close>

definition threshold_level ::
  "pywt \<Rightarrow> matrix \<Rightarrow> real \<Rightarrow> string \<Rightarrow> string \<Rightarrow> real \<Rightarrow> nat \<Rightarrow> matrix list
     \<Rightarrow> error + matrix list" where
  "threshold_level P img sigma mode method threshold_factor i level_detail =
     (if method = ''adaptive'' then
        collect
          (map (\<lambda>(j, detail).
                  threshold_call P detail (adaptive_threshold threshold_factor i j detail) mode)
               (enumerate 0 level_detail))
      else if method = ''bayes'' then
        (let threshold = sigma * threshold_factor * sqrt (2 * ln (real (size_of img)))
         in collect (map (\<lambda>detail. threshold_call P detail threshold mode) level_detail))
      else
        (let threshold = sigma * threshold_factor * sqrt (2 * ln (real (size_of img)))
         in collect (map (\<lambda>detail. threshold_call P detail threshold mode) level_detail)))"

text \<open>
  Lines 46 to 93: \<open>coeffs_thresh\<close>, the tree handed to the reconstruction. Entry 0 is
  copied; the loop runs over \<open>i = 1, ..., len(coeffs) - 1\<close>.
\<close>

definition threshold_coeffs ::
  "pywt \<Rightarrow> coeffs \<Rightarrow> matrix \<Rightarrow> real \<Rightarrow> string \<Rightarrow> string \<Rightarrow> real \<Rightarrow> error + coeffs" where
  "threshold_coeffs P c img sigma mode method threshold_factor =
     (case collect
             (map (\<lambda>(i, level_detail).
                     threshold_level P img sigma mode method threshold_factor i level_detail)
                  (enumerate 1 (details c))) of
        Inl e \<Rightarrow> Inl e
      | Inr ds \<Rightarrow> Inr \<lparr>approx = approx c, details = ds\<rparr>)"

text \<open>
  \<open>coeffs[-1]\<close>, the last entry of the list: the last tuple of detail subbands, or the
  approximation subband when the list has no other entry. \<open>np.abs\<close> stacks the members
  of a tuple into one array, so the entry is kept as the list of its arrays.
\<close>

definition last_entry :: "coeffs \<Rightarrow> matrix list" where
  "last_entry c = (if details c = [] then [approx c] else last (details c))"

text \<open>
  Lines 35 to 40: the noise level estimated when no \<open>sigma\<close> is passed, from a
  decomposition of its own with \<open>level=1\<close>.
\<close>

definition estimate_sigma :: "pywt \<Rightarrow> matrix \<Rightarrow> string \<Rightarrow> error + real" where
  "estimate_sigma P img wavelet =
     (case wavedec2 P img wavelet 1 of
        Inl e \<Rightarrow> Inl e
      | Inr c \<Rightarrow> Inr (median (map abs (concat (concat (last_entry c)))) / 0.6745))"

text \<open>Lines 35 to 40: the value of \<open>sigma\<close> after the first \<open>if\<close>.\<close>

definition sigma_used :: "pywt \<Rightarrow> matrix \<Rightarrow> string \<Rightarrow> real option \<Rightarrow> error + real" where
  "sigma_used P img wavelet sigma =
     (case sigma of None \<Rightarrow> estimate_sigma P img wavelet | Some s \<Rightarrow> Inr s)"

text \<open>
  Lines 35 to 93: the value of \<open>coeffs_thresh\<close> when the loop has ended, the tree that
  line 96 hands to \<open>pywt.waverec2\<close>.
\<close>

definition coeffs_thresh ::
  "pywt \<Rightarrow> matrix \<Rightarrow> string \<Rightarrow> real option \<Rightarrow> string \<Rightarrow> string \<Rightarrow> int \<Rightarrow> real
     \<Rightarrow> error + coeffs" where
  "coeffs_thresh P img wavelet sigma mode method levels threshold_factor =
     (case sigma_used P img wavelet sigma of
        Inl e \<Rightarrow> Inl e
      | Inr sigma' \<Rightarrow>
          (case wavedec2 P img wavelet levels of
             Inl e \<Rightarrow> Inl e
           | Inr c \<Rightarrow> threshold_coeffs P c img sigma' mode method threshold_factor))"

text \<open>
  Lines 16 to 103, with lines 35 to 93 in \<open>coeffs_thresh\<close>. The \<open>print\<close> calls are
  left out.
\<close>

definition wavelet_denoise ::
  "pywt \<Rightarrow> matrix \<Rightarrow> string \<Rightarrow> real option \<Rightarrow> string \<Rightarrow> string \<Rightarrow> int \<Rightarrow> real
     \<Rightarrow> error + matrix" where
  "wavelet_denoise P img wavelet sigma mode method levels threshold_factor =
     (case coeffs_thresh P img wavelet sigma mode method levels threshold_factor of
        Inl e \<Rightarrow> Inl e
      | Inr ct \<Rightarrow>
          (case waverec2 P ct wavelet of
             Inl e \<Rightarrow> Inl e
           | Inr denoised \<Rightarrow>
               Inr (if shape denoised \<noteq> shape img
                    then crop denoised (fst (shape img)) (snd (shape img))
                    else denoised)))"

text \<open>
  Lines 105 to 110: the elementwise difference of two arrays of one shape. Where the
  shapes differ numpy broadcasts or raises; the properties below use the function on
  arrays of one shape only.
\<close>

definition extract_noise :: "matrix \<Rightarrow> matrix \<Rightarrow> matrix" where
  "extract_noise original denoised = map2 (map2 (-)) original denoised"

text \<open>
  Lines 143 to 148 and 165 of \<open>process_fits_file\<close>: the two arrays it returns for the
  image it has read. Reading and writing the files and the statistics are left out.
\<close>

definition process_fits_file ::
  "pywt \<Rightarrow> matrix \<Rightarrow> string \<Rightarrow> real option \<Rightarrow> string \<Rightarrow> string \<Rightarrow> int \<Rightarrow> real
     \<Rightarrow> error + (matrix \<times> matrix)" where
  "process_fits_file P image_data wavelet sigma mode method levels threshold_factor =
     (case wavelet_denoise P image_data wavelet sigma mode method levels threshold_factor of
        Inl e \<Rightarrow> Inl e
      | Inr denoised_image \<Rightarrow> Inr (denoised_image, extract_noise image_data denoised_image))"

section \<open>The Haar transform as an instance of the library\<close>

text \<open>
  A concrete library for the concrete runs below: the two-dimensional Haar transform,
  which the library offers under the name \<open>'haar'\<close>. One step maps every block
  \<open>a b / c d\<close> of two rows and two columns to one coefficient of each of the four
  subbands; with the filter \<open>1/sqrt 2\<close> applied along both axes the factor is \<open>1/2\<close>.
  A last row or column without a partner is paired with itself, the symmetric extension
  the library uses by default. A negative level is the library's \<open>ValueError\<close>.

  The instance holds this one basis and the two modes of the specification. The library
  has more: what it does for another wavelet name, and for the further modes of its
  \<open>threshold\<close>, is left unspecified here, and no run below passes them. A mode string
  that is none of the library's is its \<open>ValueError\<close>.
\<close>

fun pairs :: "'a list \<Rightarrow> ('a \<times> 'a) list" where
  "pairs (x # y # zs) = (x, y) # pairs zs"
| "pairs [x] = [(x, x)]"
| "pairs [] = []"

fun unpairs :: "('a \<times> 'a) list \<Rightarrow> 'a list" where
  "unpairs [] = []"
| "unpairs ((x, y) # ps) = x # y # unpairs ps"

definition haar_blocks :: "matrix \<Rightarrow> ((real \<times> real) \<times> (real \<times> real)) list list" where
  "haar_blocks m =
     map (\<lambda>(r0, r1). map (\<lambda>((a, c), (b, d)). ((a, b), (c, d))) (pairs (zip r0 r1))) (pairs m)"

definition haar_dwt2 :: "matrix \<Rightarrow> matrix \<times> matrix list" where
  "haar_dwt2 m =
     (let bs = haar_blocks m
      in (map (map (\<lambda>((a, b), (c, d)). (a + b + c + d) / 2)) bs,
          [map (map (\<lambda>((a, b), (c, d)). (a + b - c - d) / 2)) bs,
           map (map (\<lambda>((a, b), (c, d)). (a - b + c - d) / 2)) bs,
           map (map (\<lambda>((a, b), (c, d)). (a - b - c + d) / 2)) bs]))"

definition haar_idwt2 :: "matrix \<Rightarrow> matrix \<Rightarrow> matrix \<Rightarrow> matrix \<Rightarrow> matrix" where
  "haar_idwt2 cA cH cV cD =
     unpairs
       (map (\<lambda>(ra, rh, rv, rd).
               (unpairs (map (\<lambda>(s, h, v, d). ((s + h + v + d) / 2, (s + h - v - d) / 2))
                             (zip ra (zip rh (zip rv rd)))),
                unpairs (map (\<lambda>(s, h, v, d). ((s - h + v - d) / 2, (s - h - v + d) / 2))
                             (zip ra (zip rh (zip rv rd))))))
            (zip cA (zip cH (zip cV cD))))"

text \<open>
  \<open>wavedec2\<close> applies the step \<open>level\<close> times to the approximation and returns the
  details coarsest first.
\<close>

fun haar_dec :: "nat \<Rightarrow> matrix \<Rightarrow> matrix list list \<Rightarrow> coeffs" where
  "haar_dec 0 a ds = \<lparr>approx = a, details = ds\<rparr>"
| "haar_dec (Suc n) a ds = (case haar_dwt2 a of (a', d) \<Rightarrow> haar_dec n a' (d # ds))"

definition haar_wavedec2 :: "matrix \<Rightarrow> string \<Rightarrow> int \<Rightarrow> error + coeffs" where
  "haar_wavedec2 data wavelet level =
     (if wavelet = ''haar'' then
        (if level < 0 then Inl ValueError else Inr (haar_dec (nat level) data []))
      else undefined)"

text \<open>
  \<open>waverec2\<close> inverts level after level, coarsest first; an approximation that is one
  row or one column larger than the details of the next level loses its last row or
  column first.
\<close>

definition trim :: "matrix \<Rightarrow> matrix \<Rightarrow> matrix" where
  "trim a d =
     (let a' = (if fst (shape a) = fst (shape d) + 1 then butlast a else a)
      in if snd (shape a) = snd (shape d) + 1 then map butlast a' else a')"

fun haar_rec :: "matrix \<Rightarrow> matrix list list \<Rightarrow> error + matrix" where
  "haar_rec a [] = Inr a"
| "haar_rec a ([cH, cV, cD] # ds) = haar_rec (haar_idwt2 (trim a cH) cH cV cD) ds"
| "haar_rec a (d # ds) = Inl ValueError"

definition haar_waverec2 :: "coeffs \<Rightarrow> string \<Rightarrow> error + matrix" where
  "haar_waverec2 c wavelet =
     (if wavelet = ''haar'' then haar_rec (approx c) (details c) else undefined)"

definition library_modes :: "string list" where
  "library_modes = [''soft'', ''hard'', ''garrote'', ''garotte'', ''greater'', ''less'']"

definition haar_other_mode :: "matrix \<Rightarrow> real \<Rightarrow> string \<Rightarrow> error + matrix" where
  "haar_other_mode data v mode =
     (if mode \<in> set library_modes then undefined else Inl ValueError)"

definition haar_pywt :: pywt where
  "haar_pywt =
     \<lparr>wavedec2 = haar_wavedec2, waverec2 = haar_waverec2,
      other_mode_threshold = haar_other_mode\<rparr>"

section \<open>Vocabulary of the specification\<close>

text \<open>
  The specification names the three detail subbands of a level by orientation; the
  library returns them as the tuple \<open>(cH, cV, cD)\<close>, horizontal, vertical, diagonal.
  \<open>subband c i ori\<close> is the detail subband of level \<open>i\<close> (1 is the coarsest) and
  orientation \<open>ori\<close> of the tree \<open>c\<close>, and \<open>orientation_multiplier\<close> is the factor that
  section 4.3 of the specification gives for each orientation.
\<close>

datatype orientation = HORIZONTAL | VERTICAL | DIAGONAL

fun position :: "orientation \<Rightarrow> nat" where
  "position HORIZONTAL = 0"
| "position VERTICAL = 1"
| "position DIAGONAL = 2"

fun orientation_multiplier :: "orientation \<Rightarrow> real" where
  "orientation_multiplier DIAGONAL = 2.0"
| "orientation_multiplier HORIZONTAL = 1.5"
| "orientation_multiplier VERTICAL = 1.5"

definition subband :: "coeffs \<Rightarrow> nat \<Rightarrow> orientation \<Rightarrow> matrix" where
  "subband c i ori = details c ! (i - 1) ! position ori"

text \<open>An array of \<open>h\<close> rows that all have \<open>w\<close> entries.\<close>

definition has_shape :: "matrix \<Rightarrow> nat \<Rightarrow> nat \<Rightarrow> bool" where
  "has_shape a h w = (length a = h \<and> list_all (\<lambda>row. length row = w) a)"

text \<open>The elementwise sum of two arrays of one shape.\<close>

definition array_add :: "matrix \<Rightarrow> matrix \<Rightarrow> matrix" where
  "array_add a b = map2 (map2 (+)) a b"

text \<open>The number of coefficients equal to zero in the detail subbands of a tree.\<close>

definition zeros_in :: "matrix \<Rightarrow> nat" where
  "zeros_in a = length (filter (\<lambda>x. x = 0) (concat a))"

definition zeroed_count :: "coeffs \<Rightarrow> nat" where
  "zeroed_count c = sum_list (map (\<lambda>level. sum_list (map zeros_in level)) (details c))"

text \<open>
  A tree in which one threshold \<open>t\<close> has been applied to every detail subband of every
  level, the approximation kept.
\<close>

definition uniformly_thresholded :: "coeffs \<Rightarrow> real \<Rightarrow> mode \<Rightarrow> coeffs" where
  "uniformly_thresholded c t md =
     \<lparr>approx = approx c,
      details = map (map (\<lambda>d. pywt_threshold d t md)) (details c)\<rparr>"

text \<open>
  A tree in which every detail subband has been shrunk with its own adaptive
  threshold, the approximation kept.
\<close>

definition adaptively_thresholded :: "coeffs \<Rightarrow> real \<Rightarrow> mode \<Rightarrow> coeffs" where
  "adaptively_thresholded c tf md =
     \<lparr>approx = approx c,
      details = map (\<lambda>(i, level). map (\<lambda>(j, d). pywt_threshold d (adaptive_threshold tf i j d) md)
                                       (enumerate 0 level))
                    (enumerate 1 (details c))\<rparr>"

text \<open>
  The estimate the specification describes for the global noise level: the median of
  the magnitudes of the coarsest detail level of a tree (level 1, the first tuple),
  over 0.6745.
\<close>

definition coarsest_level_sigma :: "coeffs \<Rightarrow> real" where
  "coarsest_level_sigma c = median (map abs (concat (concat (details c ! 0)))) / 0.6745"

section \<open>Concrete data for the runs\<close>

text \<open>
  An image of four rows and four columns, its Haar decomposition with two levels, and
  that tree after hard adaptive thresholding with factor 1.
\<close>

definition example_image :: matrix where
  "example_image = [[1, 2, 3, 4], [5, 6, 7, 9], [9, 10, 11, 12], [13, 14, 15, 20]]"

definition example_tree :: coeffs where
  "example_tree =
     \<lparr>approx = [[141 / 4]],
      details = [[[[- (67 / 4)]], [[- (21 / 4)]], [[3 / 4]]],
                 [[[- 4, - (9 / 2)], [- 4, - 6]],
                  [[- 1, - (3 / 2)], [- 1, - 3]],
                  [[0, 1 / 2], [0, 2]]]]\<rparr>"

definition example_thresholded :: coeffs where
  "example_thresholded =
     \<lparr>approx = [[141 / 4]],
      details = [[[[0]], [[0]], [[0]]],
                 [[[0, 0], [0, - 6]],
                  [[0, - (3 / 2)], [0, - 3]],
                  [[0, 1 / 2], [0, 2]]]]\<rparr>"

definition example_denoised :: matrix where
  "example_denoised =
     [[141 / 16, 141 / 16, 133 / 16, 149 / 16],
      [141 / 16, 141 / 16, 125 / 16, 157 / 16],
      [141 / 16, 141 / 16, 85 / 16, 101 / 16],
      [141 / 16, 141 / 16, 149 / 16, 229 / 16]]"

definition example_noise :: matrix where
  "example_noise =
     [[- (125 / 16), - (109 / 16), - (85 / 16), - (85 / 16)],
      [- (61 / 16), - (45 / 16), - (13 / 16), - (13 / 16)],
      [3 / 16, 19 / 16, 91 / 16, 91 / 16],
      [67 / 16, 83 / 16, 91 / 16, 91 / 16]]"

text \<open>The decomposition of \<open>example_image\<close> with one level.\<close>

definition example_single_level :: coeffs where
  "example_single_level =
     \<lparr>approx = [[7, 23 / 2], [23, 29]],
      details = [[[[- 4, - (9 / 2)], [- 4, - 6]],
                  [[- 1, - (3 / 2)], [- 1, - 3]],
                  [[0, 1 / 2], [0, 2]]]]\<rparr>"

text \<open>
  An image of three rows and three columns, whose reconstruction has four of each, and
  the tree and the reconstruction of its run with one level.
\<close>

definition odd_image :: matrix where
  "odd_image = [[1, 2, 3], [4, 5, 6], [7, 8, 10]]"

definition odd_thresholded :: coeffs where
  "odd_thresholded =
     \<lparr>approx = [[6, 9], [15, 20]],
      details = [[[[0, 0], [0, 0]], [[0, 0], [0, 0]], [[0, 0], [0, 0]]]]\<rparr>"

definition odd_reconstruction :: matrix where
  "odd_reconstruction =
     [[3, 3, 9 / 2, 9 / 2], [3, 3, 9 / 2, 9 / 2],
      [15 / 2, 15 / 2, 10, 10], [15 / 2, 15 / 2, 10, 10]]"

text \<open>
  An image of horizontal stripes: its horizontal detail subband is constant and not
  zero.
\<close>

definition striped_image :: matrix where
  "striped_image = [[2, 2, 2, 2], [0, 0, 0, 0], [2, 2, 2, 2], [0, 0, 0, 0]]"

definition striped_tree :: coeffs where
  "striped_tree =
     \<lparr>approx = [[2, 2], [2, 2]],
      details = [[[[2, 2], [2, 2]], [[0, 0], [0, 0]], [[0, 0], [0, 0]]]]\<rparr>"

definition striped_thresholded :: coeffs where
  "striped_thresholded =
     \<lparr>approx = [[2, 2], [2, 2]],
      details = [[[[0, 0], [0, 0]], [[0, 0], [0, 0]], [[0, 0], [0, 0]]]]\<rparr>"


section \<open>Properties of the thresholding loop\<close>

lemma collect_map_Inr: "collect (map (\<lambda>x. Inr (f x)) xs) = Inr (map f xs)"
  by (induction xs) simp_all


lemma threshold_call_known:
  "threshold_call P d v (mode_name md) = Inr (pywt_threshold d v md)"
  by (cases md) (simp_all add: threshold_call_def)


lemma threshold_level_adaptive_known:
  "threshold_level P img s (mode_name md) ''adaptive'' tf i ld =
   Inr (map (\<lambda>(j, d). pywt_threshold d (adaptive_threshold tf i j d) md) (enumerate 0 ld))"
  by (simp add: threshold_level_def threshold_call_known case_prod_unfold collect_map_Inr)

lemma threshold_level_standard_known:
  "method \<noteq> ''adaptive'' \<Longrightarrow>
   threshold_level P img s (mode_name md) method tf i ld =
   Inr (map (\<lambda>d. pywt_threshold d (s * tf * sqrt (2 * ln (real (size_of img)))) md) ld)"
  by (simp add: threshold_level_def threshold_call_known collect_map_Inr)

lemma threshold_coeffs_adaptive_known:
  "threshold_coeffs P c img s (mode_name md) ''adaptive'' tf
   = Inr (adaptively_thresholded c tf md)"
  by (simp add: threshold_coeffs_def adaptively_thresholded_def threshold_level_adaptive_known
        case_prod_unfold collect_map_Inr)

lemma threshold_coeffs_standard_known:
  assumes "method \<noteq> ''adaptive''"
  shows "threshold_coeffs P c img s (mode_name md) method tf =
         Inr (uniformly_thresholded c (s * tf * sqrt (2 * ln (real (size_of img)))) md)"
proof -
  have "map (\<lambda>p. f (snd p)) (enumerate n xs) = map f xs" for f :: "'a \<Rightarrow> 'b" and n xs
    by (induction xs arbitrary: n) simp_all
  then show ?thesis
    by (simp add: threshold_coeffs_def uniformly_thresholded_def
          threshold_level_standard_known [OF assms] case_prod_unfold collect_map_Inr)
qed

lemma threshold_coeffs_approx:
  "threshold_coeffs P c img s mode method tf = Inr ct \<Longrightarrow> approx ct = approx c"
  by (auto simp: threshold_coeffs_def split: sum.splits)

lemma threshold_coeffs_not_adaptive:
  "method \<noteq> ''adaptive'' \<Longrightarrow>
   threshold_coeffs P c img s mode method tf = threshold_coeffs P c img s mode ''sure'' tf"
  by (simp add: threshold_coeffs_def threshold_level_def)

lemma threshold_coeffs_adaptive_sigma:
  "threshold_coeffs P c img s1 mode ''adaptive'' tf
   = threshold_coeffs P c img s2 mode ''adaptive'' tf"
  by (simp add: threshold_coeffs_def threshold_level_def)

lemma adaptive_threshold_formula:
  "adaptive_threshold tf i (position ori) detail =
   median (map abs (concat detail)) / 0.6745 * tf * 0.5 ^ (i - 1) * orientation_multiplier ori"
  by (cases ori) (simp_all add: adaptive_threshold_def local_sigma_def)

lemma adaptively_thresholded_subband:
  assumes "1 \<le> i" and "i \<le> length (details c)" and "length (details c ! (i - 1)) = 3"
  shows "subband (adaptively_thresholded c tf md) i ori =
         pywt_threshold (subband c i ori)
           (median (map abs (concat (subband c i ori))) / 0.6745
              * tf * 0.5 ^ (i - 1) * orientation_multiplier ori) md"
proof -
  from assms(1,2) have k: "i - 1 < length (details c)" and s: "Suc (i - 1) = i" by simp_all
  have p: "position ori < length (details c ! (i - 1))"
    using assms(3) by (cases ori) simp_all
  show ?thesis
    using k p s
    by (simp add: subband_def adaptively_thresholded_def nth_enumerate_eq
          adaptive_threshold_formula)
qed

lemma coeffs_thresh_Inr:
  "coeffs_thresh P img w sg mode method L tf = Inr ct \<longleftrightarrow>
   (\<exists>s c. sigma_used P img w sg = Inr s \<and> wavedec2 P img w L = Inr c \<and>
          threshold_coeffs P c img s mode method tf = Inr ct)"
  by (auto simp: coeffs_thresh_def split: sum.splits)

section \<open>Evaluation of the concrete runs\<close>

lemma haar_dec_numeral:
  "haar_dec (numeral k) a ds =
   (case haar_dwt2 a of (a', d) \<Rightarrow> haar_dec (pred_numeral k) a' (d # ds))"
  by (simp add: numeral_eq_Suc)

lemmas run_defs =
  sigma_used_def coeffs_thresh_def estimate_sigma_def last_entry_def median_def
  threshold_coeffs_def threshold_level_def adaptive_threshold_def local_sigma_def
  pywt_threshold_def threshold_call_def wavelet_denoise_def shape_def crop_def size_of_def
  process_fits_file_def extract_noise_def Let_def

lemmas haar_defs =
  haar_pywt_def haar_wavedec2_def haar_dwt2_def haar_blocks_def haar_dec_numeral
  haar_waverec2_def haar_idwt2_def trim_def haar_other_mode_def library_modes_def

lemma example_decomposition:
  "wavedec2 haar_pywt example_image ''haar'' 2 = Inr example_tree"
  by (simp add: example_image_def example_tree_def haar_defs)

lemma example_sigma:
  "sigma_used haar_pywt example_image ''haar'' None = Inr (3500 / 1349)"
  by (simp add: example_image_def run_defs haar_defs)

lemma example_run_factor_1:
  "coeffs_thresh haar_pywt example_image ''haar'' None ''hard'' ''adaptive'' 2 1
   = Inr example_thresholded"
  by (simp add: example_image_def example_thresholded_def run_defs haar_defs)

lemma example_run_factor_tenth:
  "coeffs_thresh haar_pywt example_image ''haar'' None ''hard'' ''adaptive'' 2 (1 / 10)
   = Inr example_tree"
  by (simp add: example_image_def example_tree_def run_defs haar_defs)

section \<open>C1: the adaptive threshold of every subband\<close>

text \<open>
  C1. In a run with method \<open>'adaptive'\<close> and mode \<open>'soft'\<close> or \<open>'hard'\<close>, the detail
  subband of level \<open>i\<close> (1 the coarsest) and orientation \<open>ori\<close> in the tree handed to the reconstruction is the
  subband of the decomposition shrunk with the threshold
  \<open>local_sigma * threshold_factor * 0.5 ^ (i - 1) * m\<close>, where \<open>local_sigma\<close> is the
  median of the magnitudes of that subband's own coefficients over 0.6745, and \<open>m\<close> is
  2.0 for the diagonal and 1.5 for the horizontal and the vertical subband.
\<close>

theorem adaptive_threshold_per_subband:
  assumes "wavedec2 P img w L = Inr c"
    and "coeffs_thresh P img w sg (mode_name md) ''adaptive'' L tf = Inr ct"
    and "1 \<le> i" and "i \<le> length (details c)" and "length (details c ! (i - 1)) = 3"
  shows "subband ct i ori =
         pywt_threshold (subband c i ori)
           (median (map abs (concat (subband c i ori))) / 0.6745
              * tf * 0.5 ^ (i - 1) * orientation_multiplier ori) md"
proof -
  from assms(1,2) have "ct = adaptively_thresholded c tf md"
    by (auto simp: coeffs_thresh_Inr threshold_coeffs_adaptive_known)
  then show ?thesis
    using adaptively_thresholded_subband [OF assms(3,4,5)] by simp
qed

text \<open>
  The run on \<open>example_image\<close> with two levels, hard mode and factor 1: the diagonal
  subband of the finest level has median magnitude \<open>1/4\<close>, so its threshold is
  \<open>(1/4) / 0.6745 * 1 * 0.5 * 2 = 500/1349\<close>.
\<close>

theorem adaptive_threshold_per_subband_witness:
  "wavedec2 haar_pywt example_image ''haar'' 2 = Inr example_tree
   \<and> coeffs_thresh haar_pywt example_image ''haar'' None ''hard'' ''adaptive'' 2 1
       = Inr example_thresholded
   \<and> subband example_tree 2 DIAGONAL = [[0, 1 / 2], [0, 2]]
   \<and> subband example_thresholded 2 DIAGONAL
       = pywt_threshold [[0, 1 / 2], [0, 2]] (500 / 1349) Hard"
proof -
  have l: "1 \<le> (2::nat)" "2 \<le> length (details example_tree)"
    "length (details example_tree ! (2 - 1)) = 3"
    by (simp_all add: example_tree_def)
  have sb: "subband example_tree 2 DIAGONAL = [[0, 1 / 2], [0, 2]]"
    by (simp add: subband_def example_tree_def)
  have "subband example_thresholded 2 DIAGONAL =
        pywt_threshold (subband example_tree 2 DIAGONAL)
          (median (map abs (concat (subband example_tree 2 DIAGONAL))) / 0.6745
             * 1 * 0.5 ^ (2 - 1) * orientation_multiplier DIAGONAL) Hard"
    using example_run_factor_1
    by (intro adaptive_threshold_per_subband [OF example_decomposition _ l]) simp
  then show ?thesis
    using example_decomposition example_run_factor_1 sb
    by (simp add: median_def)
qed

section \<open>C2: the noise is the residual\<close>

lemma row_sub_add:
  "length a = length b \<Longrightarrow> map2 (+) b (map2 (-) a b) = (a :: real list)"
  by (induction a b rule: list_induct2) simp_all

lemma array_sub_add:
  "length a = length b \<Longrightarrow> \<forall>r < length a. length (a ! r) = length (b ! r) \<Longrightarrow>
   array_add b (extract_noise a b) = a"
proof (induction a b rule: list_induct2)
  case Nil
  then show ?case by (simp add: array_add_def extract_noise_def)
next
  case (Cons x xs y ys)
  have "length x = length y" using Cons.prems by auto
  moreover have "\<forall>r < length xs. length (xs ! r) = length (ys ! r)"
    using Cons.prems by auto
  ultimately show ?case
    using Cons.IH by (simp add: array_add_def extract_noise_def row_sub_add)
qed

lemma extract_noise_shape:
  assumes "has_shape a h w" and "has_shape b h w"
  shows "has_shape (extract_noise a b) h w"
  using assms by (simp add: has_shape_def extract_noise_def list_all_length)

lemma extract_noise_nth:
  assumes "has_shape a h w" and "has_shape b h w" and "r < h" and "k < w"
  shows "extract_noise a b ! r ! k = a ! r ! k - b ! r ! k"
  using assms by (simp add: has_shape_def extract_noise_def list_all_length)

text \<open>
  C2. For every image and configuration, the noise array that is returned is the
  elementwise difference of the image and the denoised array, nothing else is done to
  it, and the denoised array plus the noise is the image again, elementwise and exactly.
  The arrays are taken with the shape of the image, as a numpy difference needs.
\<close>

theorem noise_is_residual:
  assumes "process_fits_file P img w sg mode method L tf = Inr (denoised, noise)"
    and "has_shape img H W" and "has_shape denoised H W"
  shows "noise = extract_noise img denoised
         \<and> has_shape noise H W
         \<and> (\<forall>r < H. \<forall>k < W. noise ! r ! k = img ! r ! k - denoised ! r ! k)
         \<and> array_add denoised noise = img"
proof -
  have n: "noise = extract_noise img denoised"
    using assms(1) by (auto simp: process_fits_file_def split: sum.splits)
  have "length img = length denoised"
    using assms(2,3) by (simp add: has_shape_def)
  moreover have "\<forall>r < length img. length (img ! r) = length (denoised ! r)"
    using assms(2,3) by (simp add: has_shape_def list_all_length)
  ultimately have "array_add denoised (extract_noise img denoised) = img"
    by (rule array_sub_add)
  then show ?thesis
    using n extract_noise_shape [OF assms(2,3)] extract_noise_nth [OF assms(2,3)] by simp
qed

lemma example_run_result:
  "process_fits_file haar_pywt example_image ''haar'' None ''hard'' ''adaptive'' 2 1
   = Inr (example_denoised, example_noise)"
  by (simp add: example_image_def example_denoised_def example_noise_def run_defs haar_defs)

theorem noise_is_residual_witness:
  "process_fits_file haar_pywt example_image ''haar'' None ''hard'' ''adaptive'' 2 1
     = Inr (example_denoised, example_noise)
   \<and> has_shape example_image 4 4 \<and> has_shape example_denoised 4 4
   \<and> example_noise = extract_noise example_image example_denoised
   \<and> has_shape example_noise 4 4
   \<and> example_noise ! 2 ! 3 = example_image ! 2 ! 3 - example_denoised ! 2 ! 3
   \<and> array_add example_denoised example_noise = example_image"
proof -
  have i: "has_shape example_image 4 4" by (simp add: has_shape_def example_image_def)
  have d: "has_shape example_denoised 4 4" by (simp add: has_shape_def example_denoised_def)
  from noise_is_residual [OF example_run_result i d] show ?thesis
    using example_run_result i d by simp
qed

section \<open>C3: the shape of the result\<close>

lemma crop_shape:
  assumes "has_shape r H' W'" and "H \<le> H'" and "W \<le> W'"
  shows "has_shape (crop r H W) H W"
  using assms by (auto simp: has_shape_def crop_def list_all_length)

lemma shape_has_shape: "has_shape a h w \<Longrightarrow> 0 < h \<Longrightarrow> shape a = (h, w)"
  by (cases a) (auto simp: has_shape_def shape_def)

lemma crop_same: "has_shape a h w \<Longrightarrow> crop a h w = a"
  by (auto simp: has_shape_def crop_def list_all_iff intro: map_idI)

lemma crop_by_shape:
  assumes "has_shape img H W" and "has_shape r H' W'" and "H \<le> H'" and "W \<le> W'"
  shows "(if shape r \<noteq> shape img then crop r (fst (shape img)) (snd (shape img)) else r)
         = crop r H W"
proof (cases "H = 0")
  case True
  then have "img = []" using assms(1) by (simp add: has_shape_def)
  then show ?thesis using True by (cases r) (simp_all add: shape_def crop_def)
next
  case False
  then have si: "shape img = (H, W)" using assms(1) by (simp add: shape_has_shape)
  from False assms(3) have "0 < H'" by simp
  then have sr: "shape r = (H', W')" using assms(2) by (simp add: shape_has_shape)
  show ?thesis
  proof (cases "(H', W') = (H, W)")
    case True
    then show ?thesis using si sr assms(2) by (simp add: crop_same)
  next
    case False
    then show ?thesis using si sr by auto
  qed
qed

text \<open>
  C3. For an image of shape \<open>(H, W)\<close> and every configuration: when the inverse
  transform returns an array \<open>r\<close> that is at least as large as the image along both
  axes, the denoised array is \<open>r[0:H, 0:W]\<close>, the top-left crop, and the denoised and
  the noise array both have shape exactly \<open>(H, W)\<close>. Nothing is padded and no other
  window is taken.
\<close>

theorem output_shape_top_left_crop:
  assumes "has_shape img H W"
    and "coeffs_thresh P img w sg mode method L tf = Inr ct"
    and "waverec2 P ct w = Inr r"
    and "has_shape r H' W'" and "H \<le> H'" and "W \<le> W'"
  shows "process_fits_file P img w sg mode method L tf
           = Inr (crop r H W, extract_noise img (crop r H W))
         \<and> has_shape (crop r H W) H W
         \<and> has_shape (extract_noise img (crop r H W)) H W"
proof -
  have d: "wavelet_denoise P img w sg mode method L tf = Inr (crop r H W)"
    using assms(2,3) crop_by_shape [OF assms(1,4,5,6)]
    by (simp add: wavelet_denoise_def)
  have s: "has_shape (crop r H W) H W"
    using assms(4,5,6) by (rule crop_shape)
  show ?thesis
    using d s extract_noise_shape [OF assms(1) s]
    by (simp add: process_fits_file_def)
qed

text \<open>
  The image of three rows and columns: the reconstruction has four of each, and the
  result is its first three rows and columns.
\<close>

theorem output_shape_top_left_crop_witness:
  "has_shape odd_image 3 3
   \<and> coeffs_thresh haar_pywt odd_image ''haar'' None ''hard'' ''adaptive'' 1 1 = Inr odd_thresholded
   \<and> waverec2 haar_pywt odd_thresholded ''haar'' = Inr odd_reconstruction
   \<and> has_shape odd_reconstruction 4 4
   \<and> crop odd_reconstruction 3 3 = [[3, 3, 9 / 2], [3, 3, 9 / 2], [15 / 2, 15 / 2, 10]]
   \<and> process_fits_file haar_pywt odd_image ''haar'' None ''hard'' ''adaptive'' 1 1
       = Inr (crop odd_reconstruction 3 3, extract_noise odd_image (crop odd_reconstruction 3 3))
   \<and> has_shape (crop odd_reconstruction 3 3) 3 3
   \<and> has_shape (extract_noise odd_image (crop odd_reconstruction 3 3)) 3 3"
proof -
  have i: "has_shape odd_image 3 3" by (simp add: has_shape_def odd_image_def)
  have t: "coeffs_thresh haar_pywt odd_image ''haar'' None ''hard'' ''adaptive'' 1 1
           = Inr odd_thresholded"
    by (simp add: odd_image_def odd_thresholded_def run_defs haar_defs)
  have r: "waverec2 haar_pywt odd_thresholded ''haar'' = Inr odd_reconstruction"
    by (simp add: odd_thresholded_def odd_reconstruction_def haar_defs shape_def)
  have s: "has_shape odd_reconstruction 4 4"
    by (simp add: has_shape_def odd_reconstruction_def)
  have c: "crop odd_reconstruction 3 3 = [[3, 3, 9 / 2], [3, 3, 9 / 2], [15 / 2, 15 / 2, 10]]"
    by (simp add: crop_def odd_reconstruction_def)
  have le: "(3::nat) \<le> 4" by simp
  from output_shape_top_left_crop [OF i t r s le le] show ?thesis
    using i t r s c by simp
qed

section \<open>C4: the approximation subband\<close>

text \<open>
  C4. For every image and configuration, the approximation subband of the tree handed
  to the reconstruction is the approximation subband that the decomposition produced:
  the loop starts at entry 1 and applies no threshold to entry 0.
\<close>

theorem approx_unchanged:
  assumes "wavedec2 P img w L = Inr c"
    and "coeffs_thresh P img w sg mode method L tf = Inr ct"
  shows "approx ct = approx c"
  using assms by (auto simp: coeffs_thresh_Inr threshold_coeffs_approx)

theorem approx_unchanged_witness:
  "wavedec2 haar_pywt example_image ''haar'' 2 = Inr example_tree
   \<and> coeffs_thresh haar_pywt example_image ''haar'' None ''hard'' ''adaptive'' 2 1
       = Inr example_thresholded
   \<and> approx example_thresholded = approx example_tree
   \<and> approx example_tree = [[141 / 4]]"
  using approx_unchanged [OF example_decomposition example_run_factor_1]
    example_decomposition example_run_factor_1
  by (simp add: example_tree_def)

section \<open>C5: the methods bayes and sure\<close>

text \<open>
  C5. For every image and configuration, the methods \<open>'bayes'\<close> and \<open>'sure'\<close> return
  the same denoised and noise arrays (or fail alike), whatever the mode string. With
  \<open>s\<close> the global noise level and \<open>c\<close> the decomposition, both hand to the
  reconstruction, in mode \<open>'soft'\<close> or \<open>'hard'\<close>, the tree \<open>c\<close> in which
  every detail subband of every level, whatever its orientation, is shrunk with the one
  threshold \<open>s * threshold_factor * sqrt (2 * ln N)\<close>, \<open>N\<close> the number of pixels of the
  image.
\<close>

theorem bayes_sure_identical:
  "process_fits_file P img w sg mode ''bayes'' L tf
     = process_fits_file P img w sg mode ''sure'' L tf
   \<and> (sigma_used P img w sg = Inr s \<longrightarrow> wavedec2 P img w L = Inr c \<longrightarrow>
        coeffs_thresh P img w sg (mode_name md) ''bayes'' L tf =
          Inr (uniformly_thresholded c (s * tf * sqrt (2 * ln (real (size_of img)))) md)
        \<and> coeffs_thresh P img w sg (mode_name md) ''sure'' L tf =
          Inr (uniformly_thresholded c (s * tf * sqrt (2 * ln (real (size_of img)))) md))"
proof -
  have "threshold_coeffs P c' img s' mode ''bayes'' tf
        = threshold_coeffs P c' img s' mode ''sure'' tf" for c' s'
    by (rule threshold_coeffs_not_adaptive) simp
  then have "coeffs_thresh P img w sg mode ''bayes'' L tf
             = coeffs_thresh P img w sg mode ''sure'' L tf"
    by (simp add: coeffs_thresh_def split: sum.splits)
  then have "process_fits_file P img w sg mode ''bayes'' L tf
             = process_fits_file P img w sg mode ''sure'' L tf"
    by (simp add: process_fits_file_def wavelet_denoise_def)
  moreover have "coeffs_thresh P img w sg (mode_name md) m L tf =
      Inr (uniformly_thresholded c (s * tf * sqrt (2 * ln (real (size_of img)))) md)"
    if "sigma_used P img w sg = Inr s" "wavedec2 P img w L = Inr c" "m \<noteq> ''adaptive''" for m
    using that by (simp add: coeffs_thresh_def threshold_coeffs_standard_known)
  ultimately show ?thesis by simp
qed

theorem bayes_sure_identical_witness:
  "sigma_used haar_pywt example_image ''haar'' None = Inr (3500 / 1349)
   \<and> wavedec2 haar_pywt example_image ''haar'' 2 = Inr example_tree
   \<and> size_of example_image = 16
   \<and> process_fits_file haar_pywt example_image ''haar'' None ''hard'' ''bayes'' 2 (1 / 10)
       = process_fits_file haar_pywt example_image ''haar'' None ''hard'' ''sure'' 2 (1 / 10)
   \<and> coeffs_thresh haar_pywt example_image ''haar'' None ''hard'' ''bayes'' 2 (1 / 10)
       = Inr (uniformly_thresholded example_tree
                (3500 / 1349 * (1 / 10) * sqrt (2 * ln 16)) Hard)
   \<and> coeffs_thresh haar_pywt example_image ''haar'' None ''hard'' ''sure'' 2 (1 / 10)
       = Inr (uniformly_thresholded example_tree
                (3500 / 1349 * (1 / 10) * sqrt (2 * ln 16)) Hard)"
proof -
  have n: "size_of example_image = 16"
    by (simp add: size_of_def shape_def example_image_def)
  from bayes_sure_identical [of haar_pywt example_image "''haar''" None "''hard''" 2 "1 / 10"
      "3500 / 1349" example_tree Hard]
  show ?thesis
    using example_sigma example_decomposition n by simp
qed

section \<open>C6: invalid configurations\<close>






section \<open>C10: the adaptive method and the supplied sigma\<close>

text \<open>
  C10. With method \<open>'adaptive'\<close>, two runs on one image that differ only in the sigma
  option, passed or absent, return the same denoised and noise arrays. The hypotheses
  say that the step that fixes sigma ends without an error in both runs: it always does
  when a sigma is passed, and when none is passed it says that the library decomposes
  the image with one level.
\<close>

theorem adaptive_ignores_sigma:
  assumes "sigma_used P img w sg1 = Inr a" and "sigma_used P img w sg2 = Inr b"
  shows "process_fits_file P img w sg1 mode ''adaptive'' L tf
         = process_fits_file P img w sg2 mode ''adaptive'' L tf"
proof -
  have "coeffs_thresh P img w sg1 mode ''adaptive'' L tf
        = coeffs_thresh P img w sg2 mode ''adaptive'' L tf"
    using assms threshold_coeffs_adaptive_sigma [of P _ img a mode tf b]
    by (simp add: coeffs_thresh_def split: sum.splits)
  then show ?thesis
    by (simp add: process_fits_file_def wavelet_denoise_def)
qed

theorem adaptive_ignores_sigma_witness:
  "sigma_used haar_pywt example_image ''haar'' None = Inr (3500 / 1349)
   \<and> sigma_used haar_pywt example_image ''haar'' (Some 7) = Inr 7
   \<and> process_fits_file haar_pywt example_image ''haar'' (Some 7) ''hard'' ''adaptive'' 2 1
       = process_fits_file haar_pywt example_image ''haar'' None ''hard'' ''adaptive'' 2 1
   \<and> process_fits_file haar_pywt example_image ''haar'' (Some 7) ''hard'' ''adaptive'' 2 1
       = Inr (example_denoised, example_noise)"
proof -
  have s: "sigma_used haar_pywt example_image ''haar'' (Some 7) = Inr 7"
    by (simp add: sigma_used_def)
  from adaptive_ignores_sigma [OF s example_sigma, of "''hard''" 2 1] show ?thesis
    using s example_sigma example_run_result by simp
qed

section \<open>The median and the shrinkage\<close>

lemma median_in_range:
  assumes "xs \<noteq> []" and "\<forall>x \<in> set xs. lo \<le> x \<and> x \<le> hi"
  shows "lo \<le> median xs \<and> median xs \<le> hi"
proof -
  let ?s = "sort xs" and ?n = "length (sort xs)"
  have n: "0 < ?n" using assms(1) by simp
  have b: "lo \<le> ?s ! k \<and> ?s ! k \<le> hi" if "k < ?n" for k
  proof -
    have "?s ! k \<in> set ?s" using that by (rule nth_mem)
    then show ?thesis using assms(2) by simp
  qed
  have "?n div 2 < ?n" and "?n div 2 - 1 < ?n" using n by linarith+
  then have "lo \<le> ?s ! (?n div 2) \<and> ?s ! (?n div 2) \<le> hi"
    and "lo \<le> ?s ! (?n div 2 - 1) \<and> ?s ! (?n div 2 - 1) \<le> hi"
    using b by blast+
  moreover have "sort xs \<noteq> []" using assms(1) by (metis length_0_conv length_sort)
  ultimately show ?thesis by (auto simp: median_def Let_def)
qed

lemma median_abs_nonneg: "0 \<le> median (map abs xs)"
proof (cases "xs = []")
  case True
  then show ?thesis by (simp add: median_def)
next
  case False
  then have "map abs xs \<noteq> []" by simp
  moreover have "\<forall>x \<in> set (map abs xs). 0 \<le> x \<and> x \<le> Max (set (map abs xs))"
    by auto
  ultimately show ?thesis using median_in_range by blast
qed

lemma median_const:
  assumes "xs \<noteq> []" and "\<forall>x \<in> set xs. x = v"
  shows "median xs = v"
  using median_in_range [OF assms(1), of v v] assms(2) by simp

lemma local_sigma_nonneg: "0 \<le> local_sigma d"
  by (simp add: local_sigma_def median_abs_nonneg)

lemma shrink_zero_mono:
  assumes "t1 \<le> t2" and "shrink t1 md x = 0"
  shows "shrink t2 md x = 0"
  using assms by (cases md) (auto simp: max_def sgn_real_def split: if_splits)

lemma shrink_threshold_zero: "shrink 0 md x = x"
  by (cases md) (auto simp: max_def sgn_real_def)

lemma pywt_threshold_zero: "pywt_threshold d 0 md = d"
  by (simp add: pywt_threshold_def shrink_threshold_zero map_idI)

section \<open>C7: a larger factor zeroes no fewer coefficients\<close>

lemma length_filter_mono:
  "(\<And>x. x \<in> set xs \<Longrightarrow> P x \<Longrightarrow> Q x) \<Longrightarrow> length (filter P xs) \<le> length (filter Q xs)"
  by (induction xs) auto

lemma zeros_in_threshold:
  "zeros_in (pywt_threshold d t md) = length (filter (\<lambda>x. shrink t md x = 0) (concat d))"
  by (simp add: zeros_in_def pywt_threshold_def map_concat [symmetric] filter_map comp_def)

lemma zeros_in_mono:
  "t1 \<le> t2 \<Longrightarrow> zeros_in (pywt_threshold d t1 md) \<le> zeros_in (pywt_threshold d t2 md)"
  unfolding zeros_in_threshold by (rule length_filter_mono) (rule shrink_zero_mono)

lemma adaptive_threshold_mono:
  assumes "t1 \<le> t2"
  shows "adaptive_threshold t1 i j d \<le> adaptive_threshold t2 i j d"
proof -
  have "t1 * 0.5 ^ (i - 1) \<le> t2 * (0.5::real) ^ (i - 1)"
    using assms by (simp add: mult_right_mono)
  then have "local_sigma d * (t1 * 0.5 ^ (i - 1)) \<le> local_sigma d * (t2 * 0.5 ^ (i - 1))"
    using local_sigma_nonneg by (rule mult_left_mono)
  then show ?thesis by (simp add: adaptive_threshold_def Let_def mult_ac)
qed

lemma sum_list_map_mono:
  "(\<And>x. x \<in> set xs \<Longrightarrow> f x \<le> (g x :: nat)) \<Longrightarrow> sum_list (map f xs) \<le> sum_list (map g xs)"
  by (induction xs) (auto intro: add_mono)

lemma zeroed_count_mono:
  assumes "t1 \<le> t2"
  shows "zeroed_count (adaptively_thresholded c t1 md)
         \<le> zeroed_count (adaptively_thresholded c t2 md)"
proof -
  have "zeros_in (pywt_threshold d (adaptive_threshold t1 i j d) md)
        \<le> zeros_in (pywt_threshold d (adaptive_threshold t2 i j d) md)" for i j d
    using adaptive_threshold_mono [OF assms] by (rule zeros_in_mono)
  then show ?thesis
    by (simp add: zeroed_count_def adaptively_thresholded_def comp_def case_prod_unfold
          sum_list_map_mono)
qed

text \<open>
  C7. For a fixed image, basis, number of levels, mode (\<open>'soft'\<close> or \<open>'hard'\<close>) and
  sigma option, with method \<open>'adaptive'\<close>: when \<open>t1 \<le> t2\<close>, the tree of the run with factor \<open>t2\<close> has at least as
  many detail coefficients equal to zero as the tree of the run with factor \<open>t1\<close>. The
  coefficients that are zero before the shrinkage stay zero in both runs, so the same
  holds for the number of coefficients that the shrinkage sets to zero. The factors need
  not be positive.
\<close>

theorem adaptive_zeroed_count_monotone:
  assumes "t1 \<le> t2"
    and "coeffs_thresh P img w sg (mode_name md) ''adaptive'' L t1 = Inr ct1"
    and "coeffs_thresh P img w sg (mode_name md) ''adaptive'' L t2 = Inr ct2"
  shows "zeroed_count ct1 \<le> zeroed_count ct2"
  using assms(2,3) zeroed_count_mono [OF assms(1)]
  by (auto simp: coeffs_thresh_Inr threshold_coeffs_adaptive_known)

text \<open>
  On \<open>example_image\<close> in hard mode the factor \<open>1/10\<close> zeroes nothing (the two zeros of
  the decomposition remain) and the factor 1 leaves ten zeros.
\<close>

theorem adaptive_zeroed_count_monotone_witness:
  "coeffs_thresh haar_pywt example_image ''haar'' None ''hard'' ''adaptive'' 2 (1 / 10)
     = Inr example_tree
   \<and> coeffs_thresh haar_pywt example_image ''haar'' None ''hard'' ''adaptive'' 2 1
       = Inr example_thresholded
   \<and> zeroed_count example_tree = 2
   \<and> zeroed_count example_thresholded = 10
   \<and> zeroed_count example_tree \<le> zeroed_count example_thresholded"
proof -
  have le: "(1 / 10 :: real) \<le> 1" by simp
  have a: "zeroed_count example_tree = 2"
    by (simp add: zeroed_count_def zeros_in_def example_tree_def)
  have b: "zeroed_count example_thresholded = 10"
    by (simp add: zeroed_count_def zeros_in_def example_thresholded_def)
  have t1: "coeffs_thresh haar_pywt example_image ''haar'' None (mode_name Hard) ''adaptive'' 2
              (1 / 10) = Inr example_tree"
    using example_run_factor_tenth by simp
  have t2: "coeffs_thresh haar_pywt example_image ''haar'' None (mode_name Hard) ''adaptive'' 2 1
            = Inr example_thresholded"
    using example_run_factor_1 by simp
  from adaptive_zeroed_count_monotone [OF le t1 t2]
  show ?thesis
    using example_run_factor_tenth example_run_factor_1 a b by simp
qed

section \<open>C8: the global noise estimate\<close>

text \<open>
  C8 says that the estimate made when no sigma is passed is the median magnitude of the
  coarsest detail level over 0.6745. On \<open>example_image\<close> with two levels the estimate
  is \<open>3500/1349\<close> (median magnitude \<open>7/4\<close>), while the coarsest detail level of the
  tree, \<open>-67/4\<close>, \<open>-21/4\<close> and \<open>3/4\<close>, gives \<open>10500/1349\<close> (median magnitude \<open>21/4\<close>).
\<close>

theorem global_sigma_not_from_coarsest_level:
  "sigma_used haar_pywt example_image ''haar'' None = Inr (3500 / 1349)
   \<and> wavedec2 haar_pywt example_image ''haar'' 2 = Inr example_tree
   \<and> coarsest_level_sigma example_tree = 10500 / 1349"
proof -
  have "coarsest_level_sigma example_tree = 10500 / 1349"
    by (simp add: coarsest_level_sigma_def example_tree_def median_def)
  then show ?thesis
    using example_sigma example_decomposition by simp
qed

text \<open>
  C8, amended. When no sigma is passed, the global estimate is computed once, before
  the main decomposition, from a decomposition of its own with one level: it is the
  median magnitude of all coefficients of the last entry of that decomposition (its
  three detail subbands together, the finest scale of the image) over 0.6745. This one
  value is the sigma of the threshold \<open>sigma * threshold_factor * sqrt (2 * ln N)\<close> that
  every method other than \<open>'adaptive'\<close> applies, in mode \<open>'soft'\<close> or \<open>'hard'\<close>, to
  every subband of every level.
\<close>

theorem global_sigma_from_single_level:
  assumes "wavedec2 P img w 1 = Inr c1"
  shows "sigma_used P img w None
           = Inr (median (map abs (concat (concat (last_entry c1)))) / 0.6745)
         \<and> (method \<noteq> ''adaptive'' \<longrightarrow> wavedec2 P img w L = Inr c \<longrightarrow>
             coeffs_thresh P img w None (mode_name md) method L tf =
               Inr (uniformly_thresholded c
                      (median (map abs (concat (concat (last_entry c1)))) / 0.6745
                         * tf * sqrt (2 * ln (real (size_of img)))) md))"
  using assms
  by (simp add: sigma_used_def estimate_sigma_def coeffs_thresh_def
        threshold_coeffs_standard_known)

theorem global_sigma_from_single_level_witness:
  "wavedec2 haar_pywt example_image ''haar'' 1 = Inr example_single_level
   \<and> last_entry example_single_level
       = [[[- 4, - (9 / 2)], [- 4, - 6]], [[- 1, - (3 / 2)], [- 1, - 3]], [[0, 1 / 2], [0, 2]]]
   \<and> sigma_used haar_pywt example_image ''haar'' None = Inr (3500 / 1349)
   \<and> coeffs_thresh haar_pywt example_image ''haar'' None ''hard'' ''sure'' 2 (1 / 10)
       = Inr (uniformly_thresholded example_tree
                (3500 / 1349 * (1 / 10) * sqrt (2 * ln 16)) Hard)"
proof -
  have d: "wavedec2 haar_pywt example_image ''haar'' 1 = Inr example_single_level"
    by (simp add: example_image_def example_single_level_def haar_defs)
  have l: "last_entry example_single_level
       = [[[- 4, - (9 / 2)], [- 4, - 6]], [[- 1, - (3 / 2)], [- 1, - 3]], [[0, 1 / 2], [0, 2]]]"
    by (simp add: last_entry_def example_single_level_def)
  have m: "median [4, 9 / 2, 4, 6, 1, 3 / 2, 1, 3, 0, 1 / 2, 0, 2] = 7 / 4"
    by (simp add: median_def)
  have n: "size_of example_image = 16"
    by (simp add: size_of_def shape_def example_image_def)
  from global_sigma_from_single_level [OF d, of "''sure''" 2 example_tree Hard "1 / 10"]
  show ?thesis
    using d l example_decomposition by (simp add: m n)
qed

section \<open>C9: a subband of equal values\<close>

text \<open>
  C9 says that a subband whose values are all equal has sigma 0 and is left unchanged.
  The horizontal detail subband of \<open>striped_image\<close> has the value 2 everywhere: its
  sigma is \<open>2 / 0.6745 = 4000/1349\<close>, its threshold with factor 1 is \<open>6000/1349\<close>, and
  the hard shrinkage sets all of it to zero.
\<close>

theorem constant_subband_sigma_not_zero:
  "wavedec2 haar_pywt striped_image ''haar'' 1 = Inr striped_tree
   \<and> subband striped_tree 1 HORIZONTAL = [[2, 2], [2, 2]]
   \<and> local_sigma [[2, 2], [2, 2]] = 4000 / 1349
   \<and> adaptive_threshold 1 1 0 [[2, 2], [2, 2]] = 6000 / 1349
   \<and> coeffs_thresh haar_pywt striped_image ''haar'' None ''hard'' ''adaptive'' 1 1
       = Inr striped_thresholded
   \<and> subband striped_thresholded 1 HORIZONTAL = [[0, 0], [0, 0]]"
proof -
  have "wavedec2 haar_pywt striped_image ''haar'' 1 = Inr striped_tree"
    by (simp add: striped_image_def striped_tree_def haar_defs)
  moreover have "subband striped_tree 1 HORIZONTAL = [[2, 2], [2, 2]]"
    by (simp add: subband_def striped_tree_def)
  moreover have "local_sigma [[2, 2], [2, 2]] = 4000 / 1349"
    by (simp add: local_sigma_def median_def)
  moreover have "adaptive_threshold 1 1 0 [[2, 2], [2, 2]] = 6000 / 1349"
    by (simp add: adaptive_threshold_def local_sigma_def median_def)
  moreover have "coeffs_thresh haar_pywt striped_image ''haar'' None ''hard'' ''adaptive'' 1 1
       = Inr striped_thresholded"
    by (simp add: striped_image_def striped_thresholded_def run_defs haar_defs)
  moreover have "subband striped_thresholded 1 HORIZONTAL = [[0, 0], [0, 0]]"
    by (simp add: subband_def striped_thresholded_def)
  ultimately show ?thesis by simp
qed

text \<open>
  C9, amended. A subband, not empty, whose values all equal \<open>v\<close> has the sigma
  \<open>|v| / 0.6745\<close>. When \<open>v\<close> is 0 the sigma is 0, the adaptive threshold derived from it
  is 0 at every level, position and factor, and the shrinkage in either mode returns
  the subband unchanged; nothing fails.
\<close>

theorem zero_subband_unchanged:
  assumes "concat sb \<noteq> []" and "\<forall>x \<in> set (concat sb). x = v"
  shows "local_sigma sb = \<bar>v\<bar> / 0.6745
         \<and> (v = 0 \<longrightarrow> local_sigma sb = 0 \<and> adaptive_threshold tf i j sb = 0
                     \<and> pywt_threshold sb (adaptive_threshold tf i j sb) md = sb)"
proof -
  have "map abs (concat sb) \<noteq> []" using assms(1) by simp
  moreover have "\<forall>x \<in> set (map abs (concat sb)). x = \<bar>v\<bar>" using assms(2) by auto
  ultimately have "median (map abs (concat sb)) = \<bar>v\<bar>" by (rule median_const)
  then have s: "local_sigma sb = \<bar>v\<bar> / 0.6745" by (simp add: local_sigma_def)
  then have "adaptive_threshold tf i j sb = 0" if "v = 0"
    using that by (simp add: adaptive_threshold_def Let_def)
  then show ?thesis using s by (auto simp: pywt_threshold_zero)
qed

theorem zero_subband_unchanged_witness:
  "concat [[0, 0], [0, 0 :: real]] \<noteq> []
   \<and> local_sigma [[0, 0], [0, 0]] = 0
   \<and> adaptive_threshold 1 1 0 [[0, 0], [0, 0]] = 0
   \<and> pywt_threshold [[0, 0], [0, 0]] (adaptive_threshold 1 1 0 [[0, 0], [0, 0]]) Soft
       = [[0, 0], [0, 0]]"
proof -
  have n: "concat [[0, 0], [0, 0 :: real]] \<noteq> []" by simp
  have a: "\<forall>x \<in> set (concat [[0, 0], [0, 0 :: real]]). x = 0" by simp
  from zero_subband_unchanged [OF n a, of 1 1 0 Soft] show ?thesis
    by (simp add: pywt_threshold_def)
qed

end
